theory Spec2Isabelle
  imports Complex_Main "HOL-Library.Multiset"
begin

section \<open>JavaScript values read from the document store\<close>

text \<open>
  A JavaScript number: the three non-finite values and the finite ones, kept as exact
  rationals (every finite double is one; both zeros are \<open>Fin 0\<close>).
\<close>

datatype jsnum = NaN | PosInf | NegInf | Fin rat

text \<open>
  The time value of a \<open>Date\<close> object: milliseconds since the epoch, or \<open>None\<close> for an
  Invalid Date (time value NaN).
\<close>

type_synonym date = "int option"

text \<open>
  The values a field of a stored document holds after decoding by the store's client:
  null, booleans, numbers, strings, store-native timestamps and maps (plain objects);
  \<open>JDate\<close> is the \<open>Date\<close> object the screen puts into a published entry. A store-native
  timestamp is represented by the time value its \<open>toDate()\<close> returns. An absent field
  (JavaScript \<open>undefined\<close>) is \<open>None\<close> in the enclosing map. Arrays, geo points, byte
  strings and document references are not modelled.
\<close>

datatype jsval =
    JNull
  | JBool bool
  | JNum jsnum
  | JStr string
  | JTimestamp int
  | JDate date
  | JMap "string \<Rightarrow> jsval option"

type_synonym obj = "string \<Rightarrow> jsval option"

text \<open>The only exception the snapshot callback can meet: ToPrimitive on an object.\<close>

datatype error = TypeError

text \<open>
  What the JavaScript engine supplies to the snapshot callback: \<open>Date.parse\<close> (its
  result on anything but the ISO format is implementation-defined, \<open>None\<close> is NaN) and
  the time value of the \<open>new Date()\<close> evaluated while record number \<open>i\<close> of the snapshot
  is processed.
\<close>

record engine =
  parse :: "string \<Rightarrow> int option"
  clock :: "nat \<Rightarrow> int"

text \<open>ToBoolean, as used by \<open>data.timestamp && ...\<close>, \<open>item.location && ...\<close>, \<open>if (item.userId)\<close>.\<close>

fun truthy :: "jsval \<Rightarrow> bool" where
  "truthy JNull = False"
| "truthy (JBool b) = b"
| "truthy (JNum n) = (n \<noteq> NaN \<and> n \<noteq> Fin 0)"
| "truthy (JStr s) = (s \<noteq> [])"
| "truthy (JTimestamp t) = True"
| "truthy (JDate d) = True"
| "truthy (JMap m) = True"

text \<open>
  TimeClip of the \<open>Date\<close> constructor: a number that is not finite or lies beyond
  8.64e15 ms gives an Invalid Date, any other is truncated towards zero.
\<close>

fun TimeClip :: "jsnum \<Rightarrow> date" where
  "TimeClip (Fin x) =
     (if \<bar>x\<bar> > 8640000000000000 then None
      else Some (if 0 \<le> x then \<lfloor>x\<rfloor> else \<lceil>x\<rceil>))"
| "TimeClip NaN = None"
| "TimeClip PosInf = None"
| "TimeClip NegInf = None"

section \<open>ReportStream: the snapshot callback of \<open>AccidentRecords\<close>\<close>

text \<open>
  The two branches taken for a truthy \<open>data.timestamp\<close> (lines 22 to 25). Only a
  store-native timestamp has a function \<open>toDate\<close> (a stored map cannot hold a function),
  so the first equation is \<open>data.timestamp.toDate()\<close>; the others are
  \<open>new Date(data.timestamp)\<close> by type of the argument: a number is clipped, a string is
  parsed, a boolean or null is converted to a number first, a \<open>Date\<close> is copied, and a
  plain object goes through ToPrimitive, which yields the text \<open>[object Object]\<close> unless
  the object has an own property \<open>toString\<close>: that property shadows the inherited method,
  is not callable, and the conversion throws a TypeError.
\<close>

fun convert_timestamp :: "engine \<Rightarrow> jsval \<Rightarrow> error + date" where
  "convert_timestamp e (JTimestamp t) = Inr (Some t)"
| "convert_timestamp e (JNum n) = Inr (TimeClip n)"
| "convert_timestamp e (JStr s) = Inr (parse e s)"
| "convert_timestamp e (JBool b) = Inr (Some (if b then 1 else 0))"
| "convert_timestamp e JNull = Inr (Some 0)"
| "convert_timestamp e (JDate d) = Inr d"
| "convert_timestamp e (JMap m) =
     (if m ''toString'' = None then Inr (parse e ''[object Object]'') else Inl TypeError)"

text \<open>Lines 19 to 28: the local \<open>timestamp\<close> computed for record number \<open>i\<close>.\<close>

definition normalize_timestamp :: "engine \<Rightarrow> nat \<Rightarrow> obj \<Rightarrow> error + date" where
  "normalize_timestamp e i data =
     (case data ''timestamp'' of
        None \<Rightarrow> Inr (Some (clock e i))
      | Some v \<Rightarrow> if truthy v then convert_timestamp e v else Inr (Some (clock e i)))"

text \<open>
  Lines 30 to 34, the object literal \<open>{ id: docSnap.id, ...data, timestamp: timestamp }\<close>:
  later properties overwrite earlier ones.
\<close>

definition report_entry :: "string \<Rightarrow> obj \<Rightarrow> date \<Rightarrow> obj" where
  "report_entry doc_id data ts = ([''id'' \<mapsto> JStr doc_id] ++ data)(''timestamp'' \<mapsto> JDate ts)"

text \<open>
  \<open>querySnapshot.forEach\<close> with \<open>reports.push\<close>: a snapshot is the list of its documents,
  each an identifier and its data. An exception leaves the loop and the callback.
\<close>

fun collect_reports :: "engine \<Rightarrow> nat \<Rightarrow> (string \<times> obj) list \<Rightarrow> error + obj list" where
  "collect_reports e i [] = Inr []"
| "collect_reports e i ((doc_id, data) # rest) =
     (case normalize_timestamp e i data of
        Inl err \<Rightarrow> Inl err
      | Inr ts \<Rightarrow>
          (case collect_reports e (Suc i) rest of
             Inl err \<Rightarrow> Inl err
           | Inr reports \<Rightarrow> Inr (report_entry doc_id data ts # reports)))"

text \<open>
  The time value of an entry's \<open>timestamp\<close>. Every entry built by \<open>report_entry\<close> holds a
  \<open>Date\<close> there; the last case is never reached for such an entry.
\<close>

definition timestamp_value :: "obj \<Rightarrow> date" where
  "timestamp_value r = (case r ''timestamp'' of Some (JDate d) \<Rightarrow> d | _ \<Rightarrow> None)"

text \<open>
  The comparator \<open>(a, b) => b.timestamp - a.timestamp\<close>: the difference of two time
  values, NaN when either date is invalid. The sort reads the sign of the result only.
\<close>

definition compare_reports :: "obj \<Rightarrow> obj \<Rightarrow> jsnum" where
  "compare_reports a b =
     (case (timestamp_value b, timestamp_value a) of
        (Some y, Some x) \<Rightarrow> Fin (of_int (y - x))
      | _ \<Rightarrow> NaN)"

text \<open>
  \<open>Array.prototype.sort\<close> with a comparator, as a stable insertion sort: \<open>x\<close> moves behind
  \<open>y\<close> exactly when the comparator's result is greater than zero (a NaN result counts
  as zero). Every stable sort gives this list when the comparator is consistent, which
  \<open>compare_reports\<close> is when every date is valid. With an invalid date among the entries
  the comparator is inconsistent, the language leaves the order to the engine, and an
  engine may publish another order than this function: there only the multiset of the
  result is the code's, and nothing below uses more of it.
\<close>

fun positive :: "jsnum \<Rightarrow> bool" where
  "positive (Fin x) = (0 < x)"
| "positive PosInf = True"
| "positive NegInf = False"
| "positive NaN = False"

fun insert_sorted :: "('a \<Rightarrow> 'a \<Rightarrow> jsnum) \<Rightarrow> 'a \<Rightarrow> 'a list \<Rightarrow> 'a list" where
  "insert_sorted cmp x [] = [x]"
| "insert_sorted cmp x (y # ys) =
     (if positive (cmp x y) then y # insert_sorted cmp x ys else x # y # ys)"

fun array_sort :: "('a \<Rightarrow> 'a \<Rightarrow> jsnum) \<Rightarrow> 'a list \<Rightarrow> 'a list" where
  "array_sort cmp [] = []"
| "array_sort cmp (x # xs) = insert_sorted cmp x (array_sort cmp xs)"

text \<open>
  The callback of \<open>onSnapshot\<close> (lines 15 to 41) as a state transformer on the screen's
  \<open>accidentReports\<close>: \<open>setAccidentReports(reports)\<close> is reached unless an exception left
  the callback, in which case the previous list stays.
\<close>

definition onSnapshot_callback :: "engine \<Rightarrow> (string \<times> obj) list \<Rightarrow> obj list \<Rightarrow> obj list" where
  "onSnapshot_callback e snapshot accidentReports =
     (case collect_reports e 0 snapshot of
        Inl err \<Rightarrow> accidentReports
      | Inr reports \<Rightarrow> array_sort compare_reports reports)"

text \<open>JavaScript's \<open>>=\<close> on two dates: false as soon as one of them is invalid.\<close>

fun date_ge :: "date \<Rightarrow> date \<Rightarrow> bool" where
  "date_ge (Some x) (Some y) = (y \<le> x)"
| "date_ge _ _ = False"

fun descending :: "date list \<Rightarrow> bool" where
  "descending [] = True"
| "descending [x] = True"
| "descending (x # y # ys) = (date_ge x y \<and> descending (y # ys))"

section \<open>ResponseAction: \<open>handleRespond\<close>\<close>

text \<open>
  What the action reads and changes outside itself: the documents of the collection
  \<open>accidentReports\<close> by identifier, the notification documents of each collection
  \<open>users/{userId}/notifications\<close> in order of creation, the alerts shown to the user
  (title and message) and the links handed to \<open>Linking.openURL\<close>. The alert of a rejected
  \<open>openURL\<close> is raised by a promise handler, after the synchronous part of the action
  and at a time the platform chooses. The list below records it where the call is made,
  so the order of that alert against the alert of the \<open>catch\<close> block is not the code's:
  only which alerts are shown, and how many, is read off this list.
\<close>

record app =
  report_docs :: "string \<Rightarrow> obj option"
  notification_docs :: "string \<Rightarrow> obj list"
  alerts :: "(string \<times> string) list"
  opened :: "string list"

text \<open>
  What the platform and the store decide during one invocation: the text of a number in a
  template literal, the result of \<open>new Date().toISOString()\<close>, the message of the error
  with which \<open>openURL\<close>, \<open>updateDoc\<close> or \<open>addDoc\<close> rejects (\<open>None\<close>: it resolves), and the
  messages of the two errors the store's client raises by itself: for a path segment
  that is not a string, and for an update of a document that does not exist. A
  rejection stands for every reason the client or the server has to refuse the write:
  the transport, the access rules, an identifier that is no valid path segment.
\<close>

record platform =
  number_text :: "jsnum \<Rightarrow> string"
  now_iso :: string
  open_failure :: "string option"
  update_failure :: "string option"
  add_failure :: "string option"
  ref_error :: string
  not_found :: string

definition maps_url :: "platform \<Rightarrow> jsnum \<Rightarrow> jsnum \<Rightarrow> string" where
  "maps_url p lat lng =
     ''https://www.google.com/maps/search/?api=1&query='' @ number_text p lat @ '','' @ number_text p lng"

text \<open>
  The test of line 48, \<open>item.location && typeof item.location.latitude === 'number' &&
  typeof item.location.longitude === 'number'\<close>. Of the modelled values only a map has
  properties \<open>latitude\<close> and \<open>longitude\<close>, and a map is truthy; \<open>typeof\<close> is \<open>'number'\<close>
  for every number, NaN and the infinities included.
\<close>

definition coordinates :: "obj \<Rightarrow> (jsnum \<times> jsnum) option" where
  "coordinates item =
     (case item ''location'' of
        Some (JMap loc) \<Rightarrow>
          (case (loc ''latitude'', loc ''longitude'') of
             (Some (JNum lat), Some (JNum lng)) \<Rightarrow> Some (lat, lng)
           | _ \<Rightarrow> None)
      | _ \<Rightarrow> None)"

text \<open>Lines 48 to 55: the link is handed to the platform, or the location alert is shown.\<close>

definition open_maps :: "platform \<Rightarrow> obj \<Rightarrow> app \<Rightarrow> app" where
  "open_maps p item s =
     (case coordinates item of
        Some (lat, lng) \<Rightarrow>
          (case open_failure p of
             None \<Rightarrow> s\<lparr>opened := opened s @ [maps_url p lat lng]\<rparr>
           | Some msg \<Rightarrow>
               s\<lparr>opened := opened s @ [maps_url p lat lng],
                 alerts := alerts s @ [(''Error'', ''Failed to open Google Maps: '' @ msg)]\<rparr>)
      | None \<Rightarrow>
          s\<lparr>alerts := alerts s @ [(''Location Error'', ''Invalid location data for this accident.'')]\<rparr>)"

text \<open>
  Lines 60 to 63, \<open>doc(db, 'accidentReports', item.id)\<close> and \<open>updateDoc\<close> with the one field
  \<open>status\<close>: the store merges the given fields into the existing document and rejects
  the update of a missing one. The result is the error's message or the collection
  after the update.
\<close>

definition updateDoc_status :: "platform \<Rightarrow> obj \<Rightarrow> (string \<Rightarrow> obj option) \<Rightarrow> string + (string \<Rightarrow> obj option)" where
  "updateDoc_status p item docs =
     (case item ''id'' of
        Some (JStr i) \<Rightarrow>
          (case update_failure p of
             Some msg \<Rightarrow> Inl msg
           | None \<Rightarrow>
               (case docs i of
                  None \<Rightarrow> Inl (not_found p)
                | Some d \<Rightarrow> Inr (docs(i \<mapsto> d(''status'' \<mapsto> JStr ''Help on way'')))))
      | _ \<Rightarrow> Inl (ref_error p))"

text \<open>The message of line 69; its first character is U+1F691, here as its UTF-8 bytes.\<close>

definition responder_message :: string where
  "responder_message =
     [CHR 0xF0, CHR 0x9F, CHR 0x9A, CHR 0x91] @
     '' Help is on the way! A driver has responded to your accident report.''"

definition notification :: "platform \<Rightarrow> obj" where
  "notification p =
     [''message'' \<mapsto> JStr responder_message,
      ''timestamp'' \<mapsto> JStr (now_iso p),
      ''read'' \<mapsto> JBool False,
      ''type'' \<mapsto> JStr ''accident_response'']"

text \<open>
  Lines 67 to 73, \<open>collection(db, 'users', item.userId, 'notifications')\<close> and \<open>addDoc\<close>:
  a new document at the end of that user's notifications.
\<close>

definition addDoc_notification :: "platform \<Rightarrow> obj \<Rightarrow> (string \<Rightarrow> obj list) \<Rightarrow> string + (string \<Rightarrow> obj list)" where
  "addDoc_notification p item ns =
     (case item ''userId'' of
        Some (JStr u) \<Rightarrow>
          (case add_failure p of
             Some msg \<Rightarrow> Inl msg
           | None \<Rightarrow> Inr (ns(u := ns u @ [notification p])))
      | _ \<Rightarrow> Inl (ref_error p))"

definition truthy_field :: "obj \<Rightarrow> string \<Rightarrow> bool" where
  "truthy_field item k = (case item k of None \<Rightarrow> False | Some v \<Rightarrow> truthy v)"

text \<open>
  The body of \<open>try\<close> (lines 59 to 74): the state reached, and the message of the error
  caught if one was thrown. The two writes are awaited one after the other; a write that
  was applied stays when a later one fails.
\<close>

definition try_block :: "platform \<Rightarrow> obj \<Rightarrow> app \<Rightarrow> app \<times> string option" where
  "try_block p item s =
     (case updateDoc_status p item (report_docs s) of
        Inl msg \<Rightarrow> (s, Some msg)
      | Inr docs \<Rightarrow>
          (let s1 = s\<lparr>report_docs := docs\<rparr> in
           if truthy_field item ''userId'' then
             (case addDoc_notification p item (notification_docs s1) of
                Inl msg \<Rightarrow> (s1, Some msg)
              | Inr ns \<Rightarrow> (s1\<lparr>notification_docs := ns\<rparr>, None))
           else (s1, None)))"

text \<open>
  \<open>handleRespond\<close> (lines 46 to 79). The \<open>console.error\<close> of the handler is not shown to
  the user and is left out.
\<close>

definition handleRespond :: "platform \<Rightarrow> obj \<Rightarrow> app \<Rightarrow> app" where
  "handleRespond p item s =
     (case try_block p item (open_maps p item s) of
        (s', None) \<Rightarrow> s'
      | (s', Some msg) \<Rightarrow>
          s'\<lparr>alerts := alerts s' @ [(''Update Error'', ''Could not update status: '' @ msg)]\<rparr>)"

text \<open>The number of update errors shown so far.\<close>

definition update_errors :: "app \<Rightarrow> nat" where
  "update_errors s = length (filter (\<lambda>a. fst a = ''Update Error'') (alerts s))"

section \<open>The claims' wording and sample data\<close>

text \<open>
  A record's data is convertible when its \<open>timestamp\<close> is not a map with an own property
  \<open>toString\<close>: the one case in which \<open>new Date(data.timestamp)\<close> throws.
\<close>

definition convertible :: "obj \<Rightarrow> bool" where
  "convertible data =
     (case data ''timestamp'' of Some (JMap m) \<Rightarrow> m ''toString'' = None | _ \<Rightarrow> True)"

text \<open>
  The precedence as the specification words it, by presence of the field: a present
  field is converted (by its own capability, or parsed as a string or a numeric epoch),
  an absent one is replaced by the current time.
\<close>

definition claimed_timestamp :: "engine \<Rightarrow> nat \<Rightarrow> obj \<Rightarrow> error + date" where
  "claimed_timestamp e i data =
     (case data ''timestamp'' of
        None \<Rightarrow> Inr (Some (clock e i))
      | Some v \<Rightarrow> convert_timestamp e v)"

text \<open>
  An engine that parses one ISO text and whose clock starts at 2024-01-01T00:46:40Z, and
  three snapshots: one with each representation of a timestamp and a record without
  any, one with a text that is no date, one with the numeric epoch 0.
\<close>

definition sample_engine :: engine where
  "sample_engine =
     \<lparr>parse = (\<lambda>s. if s = ''2024-01-01T00:00:00.000Z'' then Some 1704067200000 else None),
      clock = (\<lambda>i. 1704070000000 + int i)\<rparr>"

definition sample_snapshot :: "(string \<times> obj) list" where
  "sample_snapshot =
     [(''r1'', [''status'' \<mapsto> JStr ''Pending'', ''timestamp'' \<mapsto> JNum (Fin 1704060000000)]),
      (''r2'', [''id'' \<mapsto> JStr ''custom'', ''timestamp'' \<mapsto> JStr ''2024-01-01T00:00:00.000Z'']),
      (''r3'', [''timestamp'' \<mapsto> JTimestamp 1704065000000]),
      (''r4'', [''status'' \<mapsto> JStr ''Pending''])]"

definition malformed_snapshot :: "(string \<times> obj) list" where
  "malformed_snapshot =
     [(''r1'', [''timestamp'' \<mapsto> JStr ''yesterday'']),
      (''r2'', [''timestamp'' \<mapsto> JNum (Fin 1704060000000)])]"

definition epoch_snapshot :: "(string \<times> obj) list" where
  "epoch_snapshot = [(''r0'', [''timestamp'' \<mapsto> JNum (Fin 0)])]"

text \<open>
  The report of the specification's scenario, as stored and as published, a store that
  holds it, and a platform on which every call succeeds.
\<close>

definition sample_doc :: obj where
  "sample_doc =
     [''location'' \<mapsto> JMap [''latitude'' \<mapsto> JNum (Fin (3 / 2)), ''longitude'' \<mapsto> JNum (Fin (5 / 2))],
      ''status'' \<mapsto> JStr ''Pending'',
      ''userId'' \<mapsto> JStr ''u1'',
      ''timestamp'' \<mapsto> JStr ''2024-01-01T00:00:00.000Z'']"

definition sample_item :: obj where
  "sample_item = ([''id'' \<mapsto> JStr ''r1''] ++ sample_doc)(''timestamp'' \<mapsto> JDate (Some 1704067200000))"

definition sample_app :: app where
  "sample_app =
     \<lparr>report_docs = [''r1'' \<mapsto> sample_doc],
      notification_docs = (\<lambda>u. []),
      alerts = [],
      opened = []\<rparr>"

definition sample_platform :: platform where
  "sample_platform =
     \<lparr>number_text = (\<lambda>n. if n = Fin (3 / 2) then ''1.5'' else if n = Fin (5 / 2) then ''2.5'' else ''0''),
      now_iso = ''2024-01-01T00:50:00.000Z'',
      open_failure = None,
      update_failure = None,
      add_failure = None,
      ref_error = ''invalid path'',
      not_found = ''no document to update''\<rparr>"

section \<open>The snapshot callback: auxiliary facts\<close>

lemma mset_insert_sorted: "mset (insert_sorted cmp x xs) = add_mset x (mset xs)"
  by (induction xs) auto

lemma mset_array_sort: "mset (array_sort cmp xs) = mset xs"
  by (induction xs) (auto simp: mset_insert_sorted)

lemma descending_Cons:
  "descending (x # xs) = ((case xs of [] \<Rightarrow> True | y # _ \<Rightarrow> date_ge x y) \<and> descending xs)"
  by (cases xs) auto

lemma positive_compare:
  "timestamp_value a = Some x \<Longrightarrow> timestamp_value b = Some y \<Longrightarrow>
   positive (compare_reports a b) = (x < y)"
  by (simp add: compare_reports_def)

lemma descending_insert_sorted:
  assumes "timestamp_value x \<noteq> None" and "\<forall>r \<in> set ys. timestamp_value r \<noteq> None"
    and "descending (map timestamp_value ys)"
  shows "descending (map timestamp_value (insert_sorted compare_reports x ys))"
  using assms
proof (induction ys)
  case Nil
  then show ?case by simp
next
  case (Cons y ys)
  obtain a b where ab: "timestamp_value x = Some a" "timestamp_value y = Some b"
    using Cons.prems by auto
  show ?case
  proof (cases "a < b")
    case False
    then show ?thesis using Cons.prems ab by (simp add: positive_compare)
  next
    case True
    have IH: "descending (map timestamp_value (insert_sorted compare_reports x ys))"
      using Cons by (simp add: descending_Cons)
    show ?thesis
    proof (cases ys)
      case Nil
      then show ?thesis using True ab by (simp add: positive_compare)
    next
      case (Cons z zs)
      obtain c where c: "timestamp_value z = Some c"
        using Cons.prems(2) Cons by auto
      have "c \<le> b"
        using Cons.prems(3) Cons c ab by simp
      then show ?thesis using IH True ab c Cons
        by (auto simp: positive_compare descending_Cons)
    qed
  qed
qed

lemma descending_array_sort:
  "\<forall>r \<in> set rs. timestamp_value r \<noteq> None \<Longrightarrow>
   descending (map timestamp_value (array_sort compare_reports rs))"
proof (induction rs)
  case Nil
  then show ?case by simp
next
  case (Cons r rs)
  have "set (array_sort compare_reports rs) = set rs"
    by (metis mset_array_sort set_mset_mset)
  then show ?case using Cons by (simp add: descending_insert_sorted)
qed

text \<open>
  A list that holds an invalid date beside another entry is not descending, in whatever
  order its entries stand: no sort of such a list can make it so.
\<close>

lemma invalid_date_not_descending:
  "None \<in> set ds \<Longrightarrow> 2 \<le> length ds \<Longrightarrow> \<not> descending ds"
proof (induction ds rule: descending.induct)
  case 1
  then show ?case by simp
next
  case (2 x)
  then show ?case by simp
next
  case (3 x y ys)
  show ?case
  proof (cases "x = None \<or> y = None")
    case True
    then show ?thesis by (cases x; cases y) auto
  next
    case False
    with 3 show ?thesis by (cases ys) auto
  qed
qed

text \<open>
  The entries published for the snapshot with the text that is no date are not
  descending in any order: the failure does not hang on the engine's sorting algorithm.
\<close>

lemma malformed_snapshot_never_descending:
  assumes "mset rs = mset (onSnapshot_callback sample_engine malformed_snapshot [])"
  shows "\<not> descending (map timestamp_value rs)"
proof -
  let ?published = "onSnapshot_callback sample_engine malformed_snapshot []"
  have ts: "map timestamp_value ?published = [None, Some 1704060000000]"
    by (simp add: onSnapshot_callback_def malformed_snapshot_def normalize_timestamp_def
        sample_engine_def compare_reports_def timestamp_value_def report_entry_def)
  have "set (map timestamp_value rs) = set (map timestamp_value ?published)"
    using assms by (metis mset_map set_mset_mset)
  then have "None \<in> set (map timestamp_value rs)"
    using ts by simp
  moreover have "length (map timestamp_value rs) = length (map timestamp_value ?published)"
    using assms by (metis length_map size_mset)
  then have "2 \<le> length (map timestamp_value rs)"
    using ts by simp
  ultimately show ?thesis by (rule invalid_date_not_descending)
qed

lemma timestamp_value_entry: "timestamp_value (report_entry doc_id data ts) = ts"
  by (simp add: timestamp_value_def report_entry_def)

lemma id_of_entry:
  "report_entry doc_id data ts ''id'' =
     (case data ''id'' of None \<Rightarrow> Some (JStr doc_id) | Some v \<Rightarrow> Some v)"
  by (simp add: report_entry_def map_add_def split: option.splits)

lemma collect_reports_length:
  "collect_reports e i snapshot = Inr reports \<Longrightarrow> length reports = length snapshot"
  by (induction e i snapshot arbitrary: reports rule: collect_reports.induct)
     (auto split: sum.splits)

lemma collect_reports_nth:
  "collect_reports e i snapshot = Inr reports \<Longrightarrow> j < length snapshot \<Longrightarrow>
   \<exists>ts. normalize_timestamp e (i + j) (snd (snapshot ! j)) = Inr ts \<and>
        reports ! j = report_entry (fst (snapshot ! j)) (snd (snapshot ! j)) ts"
proof (induction e i snapshot arbitrary: reports j rule: collect_reports.induct)
  case (1 e i)
  then show ?case by simp
next
  case (2 e i doc_id data rest)
  from "2.prems"(1) obtain ts rs where
    ts: "normalize_timestamp e i data = Inr ts" and
    rs: "collect_reports e (Suc i) rest = Inr rs" and
    reports: "reports = report_entry doc_id data ts # rs"
    by (auto split: sum.splits)
  show ?case
  proof (cases j)
    case 0
    then show ?thesis using ts reports by simp
  next
    case (Suc j')
    then have "j' < length rest" using "2.prems"(2) by simp
    from "2.IH" [OF ts rs this] show ?thesis using Suc reports by simp
  qed
qed

lemma normalize_convertible:
  "convertible data \<Longrightarrow> \<exists>ts. normalize_timestamp e i data = Inr ts"
  by (auto simp: convertible_def normalize_timestamp_def split: option.splits jsval.splits)

text \<open>The loop ends without an exception when every record is convertible.\<close>

lemma collect_reports_total:
  "\<forall>d \<in> set snapshot. convertible (snd d) \<Longrightarrow> \<exists>reports. collect_reports e i snapshot = Inr reports"
proof (induction e i snapshot rule: collect_reports.induct)
  case (1 e i)
  then show ?case by simp
next
  case (2 e i doc_id data rest)
  then obtain ts where ts: "normalize_timestamp e i data = Inr ts"
    using normalize_convertible [of data e i] by auto
  with 2 obtain rs where "collect_reports e (Suc i) rest = Inr rs" by auto
  with ts show ?case by simp
qed

lemma collect_reports_valid:
  "\<forall>j < length snapshot. \<exists>t. normalize_timestamp e (i + j) (snd (snapshot ! j)) = Inr (Some t) \<Longrightarrow>
   \<exists>reports. collect_reports e i snapshot = Inr reports \<and>
     (\<forall>r \<in> set reports. timestamp_value r \<noteq> None)"
proof (induction e i snapshot rule: collect_reports.induct)
  case (1 e i)
  then show ?case by simp
next
  case (2 e i doc_id data rest)
  from "2.prems" [rule_format, of 0] obtain t where
    t: "normalize_timestamp e i data = Inr (Some t)" by auto
  have "\<forall>j < length rest. \<exists>t. normalize_timestamp e (Suc i + j) (snd (rest ! j)) = Inr (Some t)"
  proof (intro allI impI)
    fix j assume "j < length rest"
    then show "\<exists>t. normalize_timestamp e (Suc i + j) (snd (rest ! j)) = Inr (Some t)"
      using "2.prems" [rule_format, of "Suc j"] by simp
  qed
  from "2.IH" [OF t this] obtain rs where
    "collect_reports e (Suc i) rest = Inr rs" "\<forall>r \<in> set rs. timestamp_value r \<noteq> None"
    by blast
  with t show ?case by (simp add: timestamp_value_entry)
qed

text \<open>
  A record whose \<open>timestamp\<close> is a map with an own \<open>toString\<close> field makes the callback
  throw: nothing is published for that snapshot, the list shown before stays.
\<close>

lemma own_toString_keeps_previous_list:
  "onSnapshot_callback sample_engine
     ((''r9'', [''timestamp'' \<mapsto> JMap [''toString'' \<mapsto> JNum (Fin 1)]]) # sample_snapshot) prev = prev"
  by (simp add: onSnapshot_callback_def normalize_timestamp_def)

text \<open>
  When every record's normalized timestamp is a valid date the sort does what its
  comment says: the published list holds the snapshot's entries in descending order of
  timestamp, and it does not depend on the list published before.
\<close>

lemma descending_when_timestamps_valid:
  assumes "\<forall>i < length snapshot. \<exists>t. normalize_timestamp e i (snd (snapshot ! i)) = Inr (Some t)"
  shows "\<exists>reports. collect_reports e 0 snapshot = Inr reports \<and>
     mset (onSnapshot_callback e snapshot prev) = mset reports \<and>
     descending (map timestamp_value (onSnapshot_callback e snapshot prev)) \<and>
     onSnapshot_callback e snapshot prev' = onSnapshot_callback e snapshot prev"
proof -
  from assms have "\<forall>j < length snapshot.
      \<exists>t. normalize_timestamp e (0 + j) (snd (snapshot ! j)) = Inr (Some t)"
    by simp
  from collect_reports_valid [OF this] obtain reports where
    reports: "collect_reports e 0 snapshot = Inr reports" and
    valid: "\<forall>r \<in> set reports. timestamp_value r \<noteq> None"
    by blast
  from reports valid show ?thesis
    by (simp add: onSnapshot_callback_def mset_array_sort descending_array_sort)
qed

lemma sample_snapshot_published_descending:
  "descending (map timestamp_value (onSnapshot_callback sample_engine sample_snapshot [])) \<and>
   map timestamp_value (onSnapshot_callback sample_engine sample_snapshot []) =
     [Some 1704070000003, Some 1704067200000, Some 1704065000000, Some 1704060000000]"
proof -
  have "\<exists>t. normalize_timestamp sample_engine i (snd (sample_snapshot ! i)) = Inr (Some t)"
    if "i < length sample_snapshot" for i
  proof -
    from that have "i = 0 \<or> i = 1 \<or> i = 2 \<or> i = 3"
      by (auto simp: sample_snapshot_def)
    then show ?thesis
      by (auto simp: sample_snapshot_def normalize_timestamp_def sample_engine_def)
  qed
  then have "\<forall>i < length sample_snapshot.
      \<exists>t. normalize_timestamp sample_engine i (snd (sample_snapshot ! i)) = Inr (Some t)"
    by blast
  from descending_when_timestamps_valid [OF this, of "[]" "[]"]
  have "descending (map timestamp_value (onSnapshot_callback sample_engine sample_snapshot []))"
    by blast
  moreover have "map timestamp_value (onSnapshot_callback sample_engine sample_snapshot []) =
     [Some 1704070000003, Some 1704067200000, Some 1704065000000, Some 1704060000000]"
    by (simp add: onSnapshot_callback_def sample_snapshot_def normalize_timestamp_def
        sample_engine_def compare_reports_def timestamp_value_entry)
  ultimately show ?thesis by simp
qed

section \<open>The snapshot callback: claims\<close>

text \<open>
  C1 (amended). For every record delivered in a snapshot, the timestamp computed for it
  follows this precedence: a store-native timestamp gives the result of its conversion
  to a date; otherwise a truthy field is handed to the date constructor (a non-empty
  string is parsed, a number other than 0 and NaN is clipped and truncated to a time
  value), and a string or number that is no date gives an invalid date without an
  exception; a field that is absent or falsy (0, NaN, the empty string, false, null)
  gives the current time. The entry built for the record carries that timestamp, and
  whenever the callback publishes the snapshot, the published list holds that entry.
\<close>

theorem snapshot_timestamp_precedence:
  "(\<forall>t. data ''timestamp'' = Some (JTimestamp t) \<longrightarrow>
      normalize_timestamp e i data = Inr (Some t)) \<and>
   (\<forall>s. data ''timestamp'' = Some (JStr s) \<and> s \<noteq> [] \<longrightarrow>
      normalize_timestamp e i data = Inr (parse e s)) \<and>
   (\<forall>n. data ''timestamp'' = Some (JNum n) \<and> n \<noteq> NaN \<and> n \<noteq> Fin 0 \<longrightarrow>
      normalize_timestamp e i data = Inr (TimeClip n)) \<and>
   (\<not> truthy_field data ''timestamp'' \<longrightarrow>
      normalize_timestamp e i data = Inr (Some (clock e i))) \<and>
   timestamp_value (report_entry doc_id data ts) = ts \<and>
   (\<forall>reports. collect_reports e 0 snapshot = Inr reports \<longrightarrow>
      mset (onSnapshot_callback e snapshot prev) = mset reports \<and>
      length reports = length snapshot \<and>
      (\<forall>j < length snapshot. \<exists>tj.
         normalize_timestamp e j (snd (snapshot ! j)) = Inr tj \<and>
         reports ! j = report_entry (fst (snapshot ! j)) (snd (snapshot ! j)) tj))"
proof -
  have stored: "\<forall>t. data ''timestamp'' = Some (JTimestamp t) \<longrightarrow>
      normalize_timestamp e i data = Inr (Some t)"
    by (simp add: normalize_timestamp_def)
  have written: "\<forall>s. data ''timestamp'' = Some (JStr s) \<and> s \<noteq> [] \<longrightarrow>
      normalize_timestamp e i data = Inr (parse e s)"
    by (simp add: normalize_timestamp_def)
  have millis: "\<forall>n. data ''timestamp'' = Some (JNum n) \<and> n \<noteq> NaN \<and> n \<noteq> Fin 0 \<longrightarrow>
      normalize_timestamp e i data = Inr (TimeClip n)"
    by (simp add: normalize_timestamp_def)
  have missing: "\<not> truthy_field data ''timestamp'' \<longrightarrow>
      normalize_timestamp e i data = Inr (Some (clock e i))"
    by (simp add: normalize_timestamp_def truthy_field_def split: option.splits)
  have published: "\<forall>reports. collect_reports e 0 snapshot = Inr reports \<longrightarrow>
      mset (onSnapshot_callback e snapshot prev) = mset reports \<and>
      length reports = length snapshot \<and>
      (\<forall>j < length snapshot. \<exists>tj.
         normalize_timestamp e j (snd (snapshot ! j)) = Inr tj \<and>
         reports ! j = report_entry (fst (snapshot ! j)) (snd (snapshot ! j)) tj)"
  proof (intro allI impI)
    fix reports
    assume reports: "collect_reports e 0 snapshot = Inr reports"
    have "mset (onSnapshot_callback e snapshot prev) = mset reports"
      using reports by (simp add: onSnapshot_callback_def mset_array_sort)
    moreover have "length reports = length snapshot"
      using reports by (rule collect_reports_length)
    moreover have "\<forall>j < length snapshot. \<exists>tj.
         normalize_timestamp e j (snd (snapshot ! j)) = Inr tj \<and>
         reports ! j = report_entry (fst (snapshot ! j)) (snd (snapshot ! j)) tj"
      using collect_reports_nth [OF reports] by simp
    ultimately show "mset (onSnapshot_callback e snapshot prev) = mset reports \<and>
      length reports = length snapshot \<and>
      (\<forall>j < length snapshot. \<exists>tj.
         normalize_timestamp e j (snd (snapshot ! j)) = Inr tj \<and>
         reports ! j = report_entry (fst (snapshot ! j)) (snd (snapshot ! j)) tj)"
      by simp
  qed
  show ?thesis
    by (intro conjI stored written millis missing published timestamp_value_entry)
qed

theorem snapshot_timestamp_precedence_witness:
  "normalize_timestamp sample_engine 0 [''timestamp'' \<mapsto> JStr ''yesterday''] = Inr None \<and>
   normalize_timestamp sample_engine 1 [''timestamp'' \<mapsto> JNum (Fin 1704060000000)] =
     Inr (Some 1704060000000) \<and>
   normalize_timestamp sample_engine 2 [''timestamp'' \<mapsto> JTimestamp 1704065000000] =
     Inr (Some 1704065000000) \<and>
   normalize_timestamp sample_engine 3 [''timestamp'' \<mapsto> JStr []] = Inr (Some 1704070000003) \<and>
   mset (onSnapshot_callback sample_engine malformed_snapshot []) =
     {#report_entry ''r1'' [''timestamp'' \<mapsto> JStr ''yesterday''] None,
       report_entry ''r2'' [''timestamp'' \<mapsto> JNum (Fin 1704060000000)] (Some 1704060000000)#}"
proof -
  have loop: "collect_reports sample_engine 0 malformed_snapshot =
      Inr [report_entry ''r1'' [''timestamp'' \<mapsto> JStr ''yesterday''] None,
           report_entry ''r2'' [''timestamp'' \<mapsto> JNum (Fin 1704060000000)] (Some 1704060000000)]"
    by (simp add: malformed_snapshot_def normalize_timestamp_def sample_engine_def)
  have falsy: "\<not> truthy_field [''timestamp'' \<mapsto> JStr []] ''timestamp''"
    by (simp add: truthy_field_def)
  have "normalize_timestamp sample_engine 0 [''timestamp'' \<mapsto> JStr ''yesterday''] =
      Inr (parse sample_engine ''yesterday'')"
    using snapshot_timestamp_precedence [where data = "[''timestamp'' \<mapsto> JStr ''yesterday'']"
        and e = sample_engine and i = 0]
    by simp
  moreover have "normalize_timestamp sample_engine 1 [''timestamp'' \<mapsto> JNum (Fin 1704060000000)] =
      Inr (TimeClip (Fin 1704060000000))"
    using snapshot_timestamp_precedence [where data = "[''timestamp'' \<mapsto> JNum (Fin 1704060000000)]"
        and e = sample_engine and i = 1]
    by simp
  moreover have "normalize_timestamp sample_engine 2 [''timestamp'' \<mapsto> JTimestamp 1704065000000] =
      Inr (Some 1704065000000)"
    using snapshot_timestamp_precedence [where data = "[''timestamp'' \<mapsto> JTimestamp 1704065000000]"
        and e = sample_engine and i = 2]
    by simp
  moreover have "normalize_timestamp sample_engine 3 [''timestamp'' \<mapsto> JStr []] =
      Inr (Some (clock sample_engine 3))"
    using snapshot_timestamp_precedence [where data = "[''timestamp'' \<mapsto> JStr []]"
        and e = sample_engine and i = 3] falsy
    by simp
  moreover have "mset (onSnapshot_callback sample_engine malformed_snapshot []) =
      mset [report_entry ''r1'' [''timestamp'' \<mapsto> JStr ''yesterday''] None,
            report_entry ''r2'' [''timestamp'' \<mapsto> JNum (Fin 1704060000000)] (Some 1704060000000)]"
    using snapshot_timestamp_precedence [where snapshot = malformed_snapshot
        and e = sample_engine and prev = "[]"] loop
    by simp
  ultimately show ?thesis
    by (simp add: sample_engine_def)
qed

text \<open>
  C1 as stated fails: a record whose \<open>timestamp\<close> is the numeric epoch 0 has the field
  present, yet it is published with the current time, not with the date parsed from it.
\<close>

theorem snapshot_timestamp_precedence_counterexample:
  "map timestamp_value (onSnapshot_callback sample_engine epoch_snapshot []) = [Some 1704070000000] \<and>
   claimed_timestamp sample_engine 0 (snd (epoch_snapshot ! 0)) = Inr (Some 0)"
  by (simp add: onSnapshot_callback_def epoch_snapshot_def normalize_timestamp_def
      claimed_timestamp_def timestamp_value_entry sample_engine_def)

text \<open>
  C2. For every snapshot the published list is to be ordered descending by normalized
  timestamp, each entry's timestamp greater than or equal to the next one's; the comment
  of line 37 says the same. The code breaks this on a snapshot that holds a timestamp
  text which is no date: that record is published with an invalid date, and an invalid
  date is neither greater than nor equal to its neighbour. The published entries are
  the two below, and by \<open>invalid_date_not_descending\<close> no order of them is descending.
\<close>

theorem invalid_date_breaks_descending_order:
  "mset (map timestamp_value (onSnapshot_callback sample_engine malformed_snapshot [])) =
     {#None, Some 1704060000000#} \<and>
   \<not> descending (map timestamp_value (onSnapshot_callback sample_engine malformed_snapshot []))"
proof -
  let ?published = "onSnapshot_callback sample_engine malformed_snapshot []"
  have entries: "mset ?published =
      {#report_entry ''r1'' [''timestamp'' \<mapsto> JStr ''yesterday''] None,
        report_entry ''r2'' [''timestamp'' \<mapsto> JNum (Fin 1704060000000)] (Some 1704060000000)#}"
    by (simp add: onSnapshot_callback_def mset_array_sort malformed_snapshot_def
        normalize_timestamp_def sample_engine_def)
  have "mset (map timestamp_value ?published) = image_mset timestamp_value (mset ?published)"
    by simp
  then have dates: "mset (map timestamp_value ?published) = {#None, Some 1704060000000#}"
    by (simp only: entries) (simp add: timestamp_value_entry)
  from dates have "set_mset (mset (map timestamp_value ?published)) =
      set_mset {#None, Some 1704060000000#}"
    by (rule arg_cong)
  then have invalid: "None \<in> set (map timestamp_value ?published)"
    by simp
  from dates have "size (mset (map timestamp_value ?published)) =
      size {#None, Some (1704060000000 :: int)#}"
    by (rule arg_cong)
  then have two: "2 \<le> length (map timestamp_value ?published)"
    by simp
  from invalid two have "\<not> descending (map timestamp_value ?published)"
    by (rule invalid_date_not_descending)
  with dates show ?thesis by simp
qed

text \<open>
  C7 (amended). For every point in time within the range of a date other than the
  epoch itself (time value 0), normalization of its three representations (the
  store-native timestamp, a non-empty text that the engine parses to it, the number of
  milliseconds) yields that same point in time.
\<close>

theorem same_instant_from_each_form:
  assumes "t \<noteq> 0" and "\<bar>t\<bar> \<le> 8640000000000000"
    and "stored ''timestamp'' = Some (JTimestamp t)"
    and "written ''timestamp'' = Some (JStr s)" and "s \<noteq> []" and "parse e s = Some t"
    and "millis ''timestamp'' = Some (JNum (Fin (of_int t)))"
  shows "normalize_timestamp e i stored = Inr (Some t) \<and>
         normalize_timestamp e j written = Inr (Some t) \<and>
         normalize_timestamp e k millis = Inr (Some t)"
  using assms by (auto simp: normalize_timestamp_def)

theorem same_instant_from_each_form_witness:
  "normalize_timestamp sample_engine 0 [''timestamp'' \<mapsto> JTimestamp 1704067200000] =
     Inr (Some 1704067200000) \<and>
   normalize_timestamp sample_engine 1 [''timestamp'' \<mapsto> JStr ''2024-01-01T00:00:00.000Z''] =
     Inr (Some 1704067200000) \<and>
   normalize_timestamp sample_engine 2 [''timestamp'' \<mapsto> JNum (Fin (of_int 1704067200000))] =
     Inr (Some 1704067200000)"
  using same_instant_from_each_form [of 1704067200000
      "[''timestamp'' \<mapsto> JTimestamp 1704067200000]"
      "[''timestamp'' \<mapsto> JStr ''2024-01-01T00:00:00.000Z'']" "''2024-01-01T00:00:00.000Z''"
      sample_engine "[''timestamp'' \<mapsto> JNum (Fin (of_int 1704067200000))]" 0 1 2]
  by (simp add: sample_engine_def)

text \<open>
  C7 as stated fails at the epoch: the number 0 is falsy and is replaced by the current
  time, while the store-native timestamp of the same instant is converted to it.
\<close>

theorem same_instant_from_each_form_counterexample:
  "normalize_timestamp sample_engine 0 [''timestamp'' \<mapsto> JTimestamp 0] = Inr (Some 0) \<and>
   normalize_timestamp sample_engine 0 [''timestamp'' \<mapsto> JNum (Fin (of_int 0))] =
     Inr (Some 1704070000000)"
  by (simp add: normalize_timestamp_def sample_engine_def)

text \<open>
  C10. For every record of a snapshot that is published, the entry's \<open>id\<close> is the value
  of the data's own field \<open>id\<close> when the stored data has one, and the identifier the
  store assigned to the document only when it has none.
\<close>

theorem published_id_shadowed:
  assumes "\<forall>d \<in> set snapshot. convertible (snd d)"
  shows "\<exists>reports. collect_reports e 0 snapshot = Inr reports \<and>
     length reports = length snapshot \<and>
     mset (onSnapshot_callback e snapshot prev) = mset reports \<and>
     (\<forall>i < length snapshot.
        (reports ! i) ''id'' =
          (case snd (snapshot ! i) ''id'' of
             Some v \<Rightarrow> Some v
           | None \<Rightarrow> Some (JStr (fst (snapshot ! i)))))"
proof -
  from collect_reports_total [OF assms] obtain reports where
    reports: "collect_reports e 0 snapshot = Inr reports" by blast
  have len: "length reports = length snapshot"
    using reports by (rule collect_reports_length)
  have pub: "mset (onSnapshot_callback e snapshot prev) = mset reports"
    using reports by (simp add: onSnapshot_callback_def mset_array_sort)
  have "(reports ! i) ''id'' =
          (case snd (snapshot ! i) ''id'' of
             Some v \<Rightarrow> Some v
           | None \<Rightarrow> Some (JStr (fst (snapshot ! i))))"
    if "i < length snapshot" for i
    using collect_reports_nth [OF reports that] by (auto simp: id_of_entry split: option.splits)
  with reports len pub show ?thesis by blast
qed

theorem published_id_shadowed_witness:
  "\<exists>reports. collect_reports sample_engine 0 sample_snapshot = Inr reports \<and>
     (reports ! 0) ''id'' = Some (JStr ''r1'') \<and>
     (reports ! 1) ''id'' = Some (JStr ''custom'')"
proof -
  have conv: "\<forall>d \<in> set sample_snapshot. convertible (snd d)"
    by (simp add: sample_snapshot_def convertible_def)
  from published_id_shadowed [OF conv, of sample_engine "[]"] obtain reports where
    r: "collect_reports sample_engine 0 sample_snapshot = Inr reports" and
    each: "\<forall>i < length sample_snapshot.
        (reports ! i) ''id'' =
          (case snd (sample_snapshot ! i) ''id'' of
             Some v \<Rightarrow> Some v
           | None \<Rightarrow> Some (JStr (fst (sample_snapshot ! i))))"
    by blast
  have "(reports ! 0) ''id'' = Some (JStr ''r1'')"
    using each [rule_format, of 0] by (simp add: sample_snapshot_def)
  moreover have "(reports ! 1) ''id'' = Some (JStr ''custom'')"
    using each [rule_format, of 1] by (simp add: sample_snapshot_def)
  ultimately show ?thesis using r by blast
qed

section \<open>The respond action: auxiliary facts\<close>

lemma open_maps_report_docs: "report_docs (open_maps p item s) = report_docs s"
  by (simp add: open_maps_def split: option.splits prod.splits)

lemma open_maps_notification_docs: "notification_docs (open_maps p item s) = notification_docs s"
  by (simp add: open_maps_def split: option.splits prod.splits)

lemma open_maps_update_errors: "update_errors (open_maps p item s) = update_errors s"
  by (simp add: open_maps_def update_errors_def split: option.splits prod.splits)

lemma respond_update_fails:
  assumes "updateDoc_status p item (report_docs s) = Inl msg"
  shows "report_docs (handleRespond p item s) = report_docs s"
    and "notification_docs (handleRespond p item s) = notification_docs s"
    and "opened (handleRespond p item s) = opened (open_maps p item s)"
    and "alerts (handleRespond p item s) = alerts (open_maps p item s) @
       [(''Update Error'', ''Could not update status: '' @ msg)]"
  using assms
  by (simp_all add: handleRespond_def try_block_def open_maps_report_docs open_maps_notification_docs)

lemma respond_no_user:
  assumes "updateDoc_status p item (report_docs s) = Inr docs" "\<not> truthy_field item ''userId''"
  shows "report_docs (handleRespond p item s) = docs"
    and "notification_docs (handleRespond p item s) = notification_docs s"
    and "opened (handleRespond p item s) = opened (open_maps p item s)"
    and "alerts (handleRespond p item s) = alerts (open_maps p item s)"
  using assms
  by (simp_all add: handleRespond_def try_block_def open_maps_report_docs open_maps_notification_docs)

lemma respond_add_fails:
  assumes "updateDoc_status p item (report_docs s) = Inr docs" "truthy_field item ''userId''"
    "addDoc_notification p item (notification_docs s) = Inl msg"
  shows "report_docs (handleRespond p item s) = docs"
    and "notification_docs (handleRespond p item s) = notification_docs s"
    and "opened (handleRespond p item s) = opened (open_maps p item s)"
    and "alerts (handleRespond p item s) = alerts (open_maps p item s) @
       [(''Update Error'', ''Could not update status: '' @ msg)]"
  using assms
  by (simp_all add: handleRespond_def try_block_def open_maps_report_docs open_maps_notification_docs)

lemma respond_both_applied:
  assumes "updateDoc_status p item (report_docs s) = Inr docs" "truthy_field item ''userId''"
    "addDoc_notification p item (notification_docs s) = Inr ns"
  shows "report_docs (handleRespond p item s) = docs"
    and "notification_docs (handleRespond p item s) = ns"
    and "opened (handleRespond p item s) = opened (open_maps p item s)"
    and "alerts (handleRespond p item s) = alerts (open_maps p item s)"
  using assms
  by (simp_all add: handleRespond_def try_block_def open_maps_report_docs open_maps_notification_docs)

lemma update_errors_one_more:
  "alerts s' = alerts s @ [(''Update Error'', m)] \<Longrightarrow> update_errors s' = Suc (update_errors s)"
  by (simp add: update_errors_def)

lemma respond_cases:
  obtains (update_fails) msg where "updateDoc_status p item (report_docs s) = Inl msg"
  | (no_user) docs where "updateDoc_status p item (report_docs s) = Inr docs" "\<not> truthy_field item ''userId''"
  | (add_fails) docs msg where "updateDoc_status p item (report_docs s) = Inr docs" "truthy_field item ''userId''"
      "addDoc_notification p item (notification_docs s) = Inl msg"
  | (both_applied) docs ns where "updateDoc_status p item (report_docs s) = Inr docs" "truthy_field item ''userId''"
      "addDoc_notification p item (notification_docs s) = Inr ns"
  by (cases "updateDoc_status p item (report_docs s)"; cases "truthy_field item ''userId''";
      cases "addDoc_notification p item (notification_docs s)") auto

lemma updateDoc_status_frame:
  assumes "updateDoc_status p item docs = Inr docs'"
  shows "\<exists>i d. item ''id'' = Some (JStr i) \<and> docs i = Some d \<and>
           docs' = docs(i \<mapsto> d(''status'' \<mapsto> JStr ''Help on way''))"
  using assms
  by (auto simp: updateDoc_status_def split: option.splits jsval.splits)

lemma respond_report_docs:
  "report_docs (handleRespond p item s) =
     (case updateDoc_status p item (report_docs s) of Inl msg \<Rightarrow> report_docs s | Inr docs \<Rightarrow> docs)"
  by (cases rule: respond_cases [of p item s])
     (simp_all add: respond_update_fails respond_no_user respond_add_fails respond_both_applied)

lemma respond_notification_docs:
  "notification_docs (handleRespond p item s) =
     (case updateDoc_status p item (report_docs s) of
        Inl msg \<Rightarrow> notification_docs s
      | Inr docs \<Rightarrow>
          if truthy_field item ''userId'' then
            (case addDoc_notification p item (notification_docs s) of
               Inl msg \<Rightarrow> notification_docs s
             | Inr ns \<Rightarrow> ns)
          else notification_docs s)"
  by (cases rule: respond_cases [of p item s])
     (simp_all add: respond_update_fails respond_no_user respond_add_fails respond_both_applied)




lemma updateDoc_status_accepted:
  assumes "item ''id'' = Some (JStr i)" "docs i = Some d" "update_failure p = None"
  shows "updateDoc_status p item docs = Inr (docs(i \<mapsto> d(''status'' \<mapsto> JStr ''Help on way'')))"
  using assms by (simp add: updateDoc_status_def)

lemma addDoc_notification_accepted:
  assumes "item ''userId'' = Some (JStr u)" "add_failure p = None"
  shows "addDoc_notification p item ns = Inr (ns(u := ns u @ [notification p]))"
  using assms by (simp add: addDoc_notification_def)

lemma status_stays:
  assumes "report_docs s i = Some d" "d ''status'' = Some (JStr ''Help on way'')"
  shows "\<exists>d'. report_docs (handleRespond p item s) i = Some d' \<and>
           d' ''status'' = Some (JStr ''Help on way'')"
proof (cases "updateDoc_status p item (report_docs s)")
  case (Inl msg)
  with assms show ?thesis by (simp add: respond_report_docs)
next
  case (Inr docs)
  from updateDoc_status_frame [OF Inr] obtain j c where
    "docs = (report_docs s)(j \<mapsto> c(''status'' \<mapsto> JStr ''Help on way''))" by blast
  with Inr assms show ?thesis by (simp add: respond_report_docs)
qed

lemma notification_fields:
  "notification p ''message'' = Some (JStr responder_message)"
  "notification p ''timestamp'' = Some (JStr (now_iso p))"
  "notification p ''read'' = Some (JBool False)"
  "notification p ''type'' = Some (JStr ''accident_response'')"
  "dom (notification p) = {''message'', ''timestamp'', ''read'', ''type''}"
  by (simp_all add: notification_def insert_commute)

lemma sample_item_fields:
  "sample_item ''id'' = Some (JStr ''r1'')"
  "sample_item ''userId'' = Some (JStr ''u1'')"
  "truthy_field sample_item ''userId''"
  "coordinates sample_item = Some (Fin (3 / 2), Fin (5 / 2))"
  by (simp_all add: sample_item_def sample_doc_def map_add_def truthy_field_def coordinates_def)

lemma sample_update_accepted:
  "update_failure p = None \<Longrightarrow>
   updateDoc_status p sample_item (report_docs sample_app) =
     Inr [''r1'' \<mapsto> sample_doc(''status'' \<mapsto> JStr ''Help on way'')]"
  by (simp add: updateDoc_status_def sample_item_fields sample_app_def)

text \<open>
  A report whose stored data has an own field \<open>id\<close> is published under that value,
  and the respond action then addresses the document of that name: when there is none,
  the status update is refused although the store holds the report.
\<close>

lemma shadowed_id_misses_report:
  assumes "data ''id'' = Some (JStr other)" and "other \<noteq> doc_id" and "update_failure p = None"
  shows "updateDoc_status p (report_entry doc_id data ts) [doc_id \<mapsto> data] = Inl (not_found p)"
  using assms by (simp add: updateDoc_status_def id_of_entry)

text \<open>When another report has that name, it is the other report that is marked.\<close>

lemma shadowed_id_marks_other_report:
  assumes "data ''id'' = Some (JStr other)" and "other \<noteq> doc_id" and "update_failure p = None"
  shows "updateDoc_status p (report_entry doc_id data ts) [doc_id \<mapsto> data, other \<mapsto> d] =
    Inr [doc_id \<mapsto> data, other \<mapsto> d(''status'' \<mapsto> JStr ''Help on way'')]"
  using assms by (simp add: updateDoc_status_def id_of_entry)

section \<open>The respond action: claims\<close>

text \<open>
  C3 (amended). For every report passed to the respond action whose status update
  succeeded: if the report carries a non-empty string \<open>userId\<close> and the store accepts the
  write, exactly one notification document is added to that user's notifications
  (\<open>users/{userId}/notifications\<close>) and to no other collection, with \<open>message\<close> the fixed
  responder acknowledgement, \<open>timestamp\<close> the current time as an ISO-8601 string, \<open>read\<close>
  false and \<open>type\<close> \<open>accident_response\<close>, and no other field. If \<open>userId\<close> is absent or
  falsy, no notification document is created, whatever the outcome of the status write,
  and skipping the step reports no error: after a successful status update the alerts
  are those of the location step alone.
\<close>

theorem conditional_notification:
  "(\<forall>docs u. updateDoc_status p item (report_docs s) = Inr docs \<and>
       item ''userId'' = Some (JStr u) \<and> u \<noteq> [] \<and> add_failure p = None \<longrightarrow>
       notification_docs (handleRespond p item s) =
         (notification_docs s)(u := notification_docs s u @ [notification p])) \<and>
   notification p ''message'' = Some (JStr responder_message) \<and>
   notification p ''timestamp'' = Some (JStr (now_iso p)) \<and>
   notification p ''read'' = Some (JBool False) \<and>
   notification p ''type'' = Some (JStr ''accident_response'') \<and>
   dom (notification p) = {''message'', ''timestamp'', ''read'', ''type''} \<and>
   (\<not> truthy_field item ''userId'' \<longrightarrow>
       notification_docs (handleRespond p item s) = notification_docs s) \<and>
   (\<forall>docs. updateDoc_status p item (report_docs s) = Inr docs \<and>
       \<not> truthy_field item ''userId'' \<longrightarrow>
       alerts (handleRespond p item s) = alerts (open_maps p item s))"
proof -
  have created: "\<forall>docs u. updateDoc_status p item (report_docs s) = Inr docs \<and>
       item ''userId'' = Some (JStr u) \<and> u \<noteq> [] \<and> add_failure p = None \<longrightarrow>
       notification_docs (handleRespond p item s) =
         (notification_docs s)(u := notification_docs s u @ [notification p])"
  proof (intro allI impI, elim conjE)
    fix docs u
    assume *: "updateDoc_status p item (report_docs s) = Inr docs"
      "item ''userId'' = Some (JStr u)" "u \<noteq> []" "add_failure p = None"
    then have "truthy_field item ''userId''" by (simp add: truthy_field_def)
    with * show "notification_docs (handleRespond p item s) =
         (notification_docs s)(u := notification_docs s u @ [notification p])"
      by (simp add: respond_notification_docs addDoc_notification_accepted)
  qed
  have skipped: "\<not> truthy_field item ''userId'' \<longrightarrow>
       notification_docs (handleRespond p item s) = notification_docs s"
    by (simp add: respond_notification_docs split: sum.splits)
  have silent: "\<forall>docs. updateDoc_status p item (report_docs s) = Inr docs \<and>
       \<not> truthy_field item ''userId'' \<longrightarrow>
       alerts (handleRespond p item s) = alerts (open_maps p item s)"
    by (auto simp: respond_no_user)
  show ?thesis
    by (intro conjI created skipped silent notification_fields)
qed

theorem conditional_notification_witness:
  "notification_docs (handleRespond sample_platform sample_item sample_app) =
     (\<lambda>u. [])(''u1'' := [notification sample_platform]) \<and>
   notification_docs (handleRespond sample_platform (sample_item(''userId'' := None)) sample_app) =
     (\<lambda>u. []) \<and>
   alerts (handleRespond sample_platform (sample_item(''userId'' := None)) sample_app) = []"
proof -
  have ok: "update_failure sample_platform = None" "add_failure sample_platform = None"
    by (simp_all add: sample_platform_def)
  have upd: "updateDoc_status sample_platform sample_item (report_docs sample_app) =
      Inr [''r1'' \<mapsto> sample_doc(''status'' \<mapsto> JStr ''Help on way'')]"
    using ok(1) by (rule sample_update_accepted)
  have upd': "updateDoc_status sample_platform (sample_item(''userId'' := None)) (report_docs sample_app) =
      Inr [''r1'' \<mapsto> sample_doc(''status'' \<mapsto> JStr ''Help on way'')]"
    using upd by (simp add: updateDoc_status_def)
  have anonymous: "\<not> truthy_field (sample_item(''userId'' := None)) ''userId''"
    by (simp add: truthy_field_def)
  have quiet: "alerts (open_maps sample_platform (sample_item(''userId'' := None)) sample_app) = []"
    by (simp add: open_maps_def coordinates_def sample_item_def sample_doc_def map_add_def
        sample_platform_def sample_app_def)
  from conditional_notification [where p = sample_platform and item = sample_item and
      s = sample_app] upd ok
  have "notification_docs (handleRespond sample_platform sample_item sample_app) =
      (notification_docs sample_app)(''u1'' := notification_docs sample_app ''u1'' @ [notification sample_platform])"
    by (simp add: sample_item_fields)
  moreover from conditional_notification [where p = sample_platform and
      item = "sample_item(''userId'' := None)" and s = sample_app] upd' anonymous quiet
  have "notification_docs (handleRespond sample_platform (sample_item(''userId'' := None)) sample_app) =
      notification_docs sample_app \<and>
    alerts (handleRespond sample_platform (sample_item(''userId'' := None)) sample_app) = []"
    by simp
  ultimately show ?thesis by (simp add: sample_app_def)
qed

text \<open>
  C3 as stated fails: the report carries the user identifier \<open>u1\<close>, the store rejects the
  status update, and no notification document is created.
\<close>

theorem conditional_notification_counterexample:
  "sample_item ''userId'' = Some (JStr ''u1'') \<and>
   notification_docs
     (handleRespond (sample_platform\<lparr>update_failure := Some ''unavailable''\<rparr>) sample_item sample_app)
     ''u1'' = []"
  by (simp add: sample_item_fields respond_notification_docs updateDoc_status_def
      sample_platform_def sample_app_def)

text \<open>
  C4. The status update of the respond action is a partial update of the one field
  \<open>status\<close>: when the store applies it, the target report is the stored document with
  \<open>status\<close> set to \<open>Help on way\<close>; and in every case every other field of every stored
  report is unchanged, no report is added and none is removed.
\<close>

theorem status_update_frame:
  "(\<forall>j k. k \<noteq> ''status'' \<longrightarrow>
      map_option (\<lambda>d. d k) (report_docs (handleRespond p item s) j) =
      map_option (\<lambda>d. d k) (report_docs s j)) \<and>
   (\<forall>docs. updateDoc_status p item (report_docs s) = Inr docs \<longrightarrow>
      (\<exists>i d. item ''id'' = Some (JStr i) \<and> report_docs s i = Some d \<and>
         report_docs (handleRespond p item s) =
           (report_docs s)(i \<mapsto> d(''status'' \<mapsto> JStr ''Help on way''))))"
proof (cases "updateDoc_status p item (report_docs s)")
  case (Inl msg)
  then show ?thesis by (simp add: respond_report_docs)
next
  case (Inr docs)
  from updateDoc_status_frame [OF Inr] obtain i d where
    "item ''id'' = Some (JStr i)" "report_docs s i = Some d"
    "docs = (report_docs s)(i \<mapsto> d(''status'' \<mapsto> JStr ''Help on way''))"
    by blast
  with Inr show ?thesis by (simp add: respond_report_docs)
qed

theorem status_update_frame_witness:
  "report_docs (handleRespond sample_platform sample_item sample_app) =
     (report_docs sample_app)(''r1'' \<mapsto> sample_doc(''status'' \<mapsto> JStr ''Help on way'')) \<and>
   map_option (\<lambda>d. d ''userId'') (report_docs (handleRespond sample_platform sample_item sample_app) ''r1'') =
     Some (Some (JStr ''u1''))"
proof -
  have upd: "updateDoc_status sample_platform sample_item (report_docs sample_app) =
      Inr [''r1'' \<mapsto> sample_doc(''status'' \<mapsto> JStr ''Help on way'')]"
    by (rule sample_update_accepted) (simp add: sample_platform_def)
  from status_update_frame [where s = sample_app and p = sample_platform and item = sample_item]
  have frame: "map_option (\<lambda>d. d ''userId'')
        (report_docs (handleRespond sample_platform sample_item sample_app) ''r1'') =
      map_option (\<lambda>d. d ''userId'') (report_docs sample_app ''r1'')"
    and target: "\<exists>i d. sample_item ''id'' = Some (JStr i) \<and> report_docs sample_app i = Some d \<and>
      report_docs (handleRespond sample_platform sample_item sample_app) =
        (report_docs sample_app)(i \<mapsto> d(''status'' \<mapsto> JStr ''Help on way''))"
    using upd by simp_all
  from target have "report_docs (handleRespond sample_platform sample_item sample_app) =
      (report_docs sample_app)(''r1'' \<mapsto> sample_doc(''status'' \<mapsto> JStr ''Help on way''))"
    by (auto simp: sample_item_fields sample_app_def)
  with frame show ?thesis by (simp add: sample_app_def sample_doc_def)
qed



text \<open>
  C6. For every invocation of the respond action in which the status update fails, or
  in which the notification write is attempted and fails, exactly one update error is
  shown; when it is the notification write that fails, the status update already
  applied stays in the store.
\<close>

theorem single_update_error:
  assumes "updateDoc_status p item (report_docs s) = Inl msg \<or>
     (updateDoc_status p item (report_docs s) = Inr docs \<and> truthy_field item ''userId'' \<and>
      addDoc_notification p item (notification_docs s) = Inl msg)"
  shows "update_errors (handleRespond p item s) = update_errors s + 1 \<and>
     (updateDoc_status p item (report_docs s) = Inr docs \<longrightarrow>
        report_docs (handleRespond p item s) = docs)"
  using assms
  by (auto simp: respond_update_fails respond_add_fails
      update_errors_one_more [where s = "open_maps p item s"] open_maps_update_errors)

theorem single_update_error_witness:
  "addDoc_notification (sample_platform\<lparr>add_failure := Some ''permission denied''\<rparr>) sample_item
     (notification_docs sample_app) = Inl ''permission denied'' \<and>
   update_errors
     (handleRespond (sample_platform\<lparr>add_failure := Some ''permission denied''\<rparr>) sample_item sample_app) = 1 \<and>
   report_docs
     (handleRespond (sample_platform\<lparr>add_failure := Some ''permission denied''\<rparr>) sample_item sample_app) =
     [''r1'' \<mapsto> sample_doc(''status'' \<mapsto> JStr ''Help on way'')]"
proof -
  let ?p = "sample_platform\<lparr>add_failure := Some ''permission denied''\<rparr>"
  have upd: "updateDoc_status ?p sample_item (report_docs sample_app) =
      Inr [''r1'' \<mapsto> sample_doc(''status'' \<mapsto> JStr ''Help on way'')]"
    by (rule sample_update_accepted) (simp add: sample_platform_def)
  have add: "addDoc_notification ?p sample_item (notification_docs sample_app) = Inl ''permission denied''"
    by (simp add: addDoc_notification_def sample_item_fields)
  have none: "update_errors sample_app = 0"
    by (simp add: update_errors_def sample_app_def)
  from single_update_error [where p = ?p and item = sample_item and s = sample_app and
      msg = "''permission denied''" and
      docs = "[''r1'' \<mapsto> sample_doc(''status'' \<mapsto> JStr ''Help on way'')]"] upd add none
  show ?thesis by (simp add: sample_item_fields)
qed

text \<open>
  C8 (amended). For every report passed to the respond action that carries the
  identifier of a document the store holds (its own document's whenever its stored data
  has no \<open>id\<close> field of its own), when the store accepts the first status update, the
  status of that document is \<open>Help on way\<close> after the first invocation of the respond
  action and after the second, whatever happens in the second: the value does not
  toggle. When the report carries a non-empty string \<open>userId\<close> and the store accepts the
  writes of both invocations, each invocation adds one notification document: two
  invocations leave two, not one.
\<close>

theorem respond_twice:
  assumes "item ''id'' = Some (JStr i)" "report_docs s i = Some d" "update_failure p = None"
  shows "(\<exists>d1. report_docs (handleRespond p item s) i = Some d1 \<and>
            d1 ''status'' = Some (JStr ''Help on way'')) \<and>
         (\<exists>d2. report_docs (handleRespond q item (handleRespond p item s)) i = Some d2 \<and>
            d2 ''status'' = Some (JStr ''Help on way'')) \<and>
         (\<forall>u. item ''userId'' = Some (JStr u) \<and> u \<noteq> [] \<and> add_failure p = None \<and>
              update_failure q = None \<and> add_failure q = None \<longrightarrow>
            notification_docs (handleRespond p item s) u =
              notification_docs s u @ [notification p] \<and>
            notification_docs (handleRespond q item (handleRespond p item s)) u =
              notification_docs s u @ [notification p, notification q]) \<and>
         (\<forall>doc_id data ts. item = report_entry doc_id data ts \<and> data ''id'' = None \<longrightarrow>
            i = doc_id)"
proof -
  let ?s1 = "handleRespond p item s"
  have docs1: "report_docs ?s1 = (report_docs s)(i \<mapsto> d(''status'' \<mapsto> JStr ''Help on way''))"
    using assms by (simp add: respond_report_docs updateDoc_status_accepted)
  then have first: "\<exists>d1. report_docs ?s1 i = Some d1 \<and> d1 ''status'' = Some (JStr ''Help on way'')"
    by simp
  then obtain d1 where d1: "report_docs ?s1 i = Some d1" "d1 ''status'' = Some (JStr ''Help on way'')"
    by blast
  have second: "\<exists>d2. report_docs (handleRespond q item ?s1) i = Some d2 \<and>
      d2 ''status'' = Some (JStr ''Help on way'')"
    using d1 by (rule status_stays)
  have both: "\<forall>u. item ''userId'' = Some (JStr u) \<and> u \<noteq> [] \<and> add_failure p = None \<and>
              update_failure q = None \<and> add_failure q = None \<longrightarrow>
            notification_docs ?s1 u = notification_docs s u @ [notification p] \<and>
            notification_docs (handleRespond q item ?s1) u =
              notification_docs s u @ [notification p, notification q]"
  proof (intro allI impI, elim conjE)
    fix u
    assume u: "item ''userId'' = Some (JStr u)" "u \<noteq> []" and
      ok: "add_failure p = None" "update_failure q = None" "add_failure q = None"
    have t: "truthy_field item ''userId''" using u by (simp add: truthy_field_def)
    have n1: "notification_docs ?s1 = (notification_docs s)(u := notification_docs s u @ [notification p])"
      using assms t u ok
      by (simp add: respond_notification_docs updateDoc_status_accepted addDoc_notification_accepted)
    have "updateDoc_status q item (report_docs ?s1) =
        Inr ((report_docs ?s1)(i \<mapsto> d1(''status'' \<mapsto> JStr ''Help on way'')))"
      using assms(1) d1(1) ok(2) by (rule updateDoc_status_accepted)
    then have "notification_docs (handleRespond q item ?s1) =
        (notification_docs ?s1)(u := notification_docs ?s1 u @ [notification q])"
      using t u ok by (simp add: respond_notification_docs addDoc_notification_accepted)
    with n1 show "notification_docs ?s1 u = notification_docs s u @ [notification p] \<and>
      notification_docs (handleRespond q item ?s1) u =
        notification_docs s u @ [notification p, notification q]"
      by simp
  qed
  have own: "\<forall>doc_id data ts. item = report_entry doc_id data ts \<and> data ''id'' = None \<longrightarrow>
      i = doc_id"
    using assms(1) by (auto simp: id_of_entry)
  show ?thesis by (intro conjI first second both own)
qed

theorem respond_twice_witness:
  "(\<exists>d2. report_docs
       (handleRespond (sample_platform\<lparr>now_iso := ''2024-01-01T00:55:00.000Z''\<rparr>) sample_item
          (handleRespond sample_platform sample_item sample_app)) ''r1'' = Some d2 \<and>
      d2 ''status'' = Some (JStr ''Help on way'')) \<and>
   notification_docs
     (handleRespond (sample_platform\<lparr>now_iso := ''2024-01-01T00:55:00.000Z''\<rparr>) sample_item
        (handleRespond sample_platform sample_item sample_app)) ''u1'' =
     [notification sample_platform,
      notification (sample_platform\<lparr>now_iso := ''2024-01-01T00:55:00.000Z''\<rparr>)]"
proof -
  let ?p2 = "sample_platform\<lparr>now_iso := ''2024-01-01T00:55:00.000Z''\<rparr>"
  have doc: "report_docs sample_app ''r1'' = Some sample_doc"
    by (simp add: sample_app_def)
  have ok: "update_failure sample_platform = None" "add_failure sample_platform = None"
    "update_failure ?p2 = None" "add_failure ?p2 = None"
    by (simp_all add: sample_platform_def)
  have empty: "notification_docs sample_app ''u1'' = []"
    by (simp add: sample_app_def)
  from respond_twice [where item = sample_item and i = "''r1''" and s = sample_app and
      d = sample_doc and p = sample_platform and q = ?p2, OF sample_item_fields(1) doc ok(1)] ok empty
  show ?thesis by (simp add: sample_item_fields)
qed

text \<open>
  C8 as stated fails: the store holds the report and rejects the status update of each
  invocation; the status is still \<open>Pending\<close> after both, and although the report carries
  the user identifier \<open>u1\<close> no notification document is created.
\<close>

theorem respond_twice_counterexample:
  "map_option (\<lambda>d. d ''status'')
     (report_docs
        (handleRespond (sample_platform\<lparr>update_failure := Some ''unavailable''\<rparr>) sample_item
           (handleRespond (sample_platform\<lparr>update_failure := Some ''unavailable''\<rparr>) sample_item
              sample_app)) ''r1'') = Some (Some (JStr ''Pending'')) \<and>
   notification_docs
     (handleRespond (sample_platform\<lparr>update_failure := Some ''unavailable''\<rparr>) sample_item
        (handleRespond (sample_platform\<lparr>update_failure := Some ''unavailable''\<rparr>) sample_item
           sample_app)) ''u1'' = []"
  by (simp add: respond_report_docs respond_notification_docs updateDoc_status_def
      sample_item_fields sample_app_def sample_doc_def)

text \<open>
  C9. For every report, if the status update fails, the respond action creates no
  notification document: the notification write is attempted only after the status
  update has succeeded.
\<close>

theorem no_notification_without_status_update:
  assumes "updateDoc_status p item (report_docs s) = Inl msg"
  shows "notification_docs (handleRespond p item s) = notification_docs s"
  using assms by (simp add: respond_update_fails open_maps_notification_docs)

theorem no_notification_without_status_update_witness:
  "updateDoc_status (sample_platform\<lparr>update_failure := Some ''unavailable''\<rparr>) sample_item
     (report_docs sample_app) = Inl ''unavailable'' \<and>
   notification_docs
     (handleRespond (sample_platform\<lparr>update_failure := Some ''unavailable''\<rparr>) sample_item sample_app) =
     notification_docs sample_app"
proof -
  have fails: "updateDoc_status (sample_platform\<lparr>update_failure := Some ''unavailable''\<rparr>) sample_item
     (report_docs sample_app) = Inl ''unavailable''"
    by (simp add: updateDoc_status_def sample_item_fields)
  from fails no_notification_without_status_update [OF fails] show ?thesis by simp
qed

end
